theory Spec2Isabelle
  imports Main
begin

section \<open>SpotiSonic configuration store (spotisonic/config.py)\<close>

subsection \<open>Values, configurations and the default configuration\<close>

text \<open>
  The values a configuration holds are the values that \<^verbatim>\<open>json.load\<close> produces:
  \<^verbatim>\<open>None\<close>, booleans, integers, strings, lists and dictionaries with string keys.
  Floating-point numbers are left out. A dictionary is a map from its keys to its
  values, so two dictionaries are equal when they hold the same pairs, whatever the
  order they were inserted in (Python's \<^verbatim>\<open>==\<close> on dictionaries). The keys of a
  configuration are strings, which is what a JSON object can hold.
\<close>

datatype pyval =
    PNone
  | PBool bool
  | PInt int
  | PStr string
  | PList "pyval list"
  | PDict "string \<Rightarrow> pyval option"

type_synonym config = "string \<rightharpoonup> pyval"

text \<open>
  \<^verbatim>\<open>
  DEFAULT_CONFIG = {
      "default_preview_length": 30,
      "default_shuffle": True,
      "default_scrobble": True,
      "min_liked_for_artist": 1,
      "min_bookmarked_for_artist": 1,
      "max_plays_for_new_artist": 0
  }
  \<close>
\<close>

definition DEFAULT_CONFIG :: config where
  "DEFAULT_CONFIG =
     [''default_preview_length'' \<mapsto> PInt 30,
      ''default_shuffle'' \<mapsto> PBool True,
      ''default_scrobble'' \<mapsto> PBool True,
      ''min_liked_for_artist'' \<mapsto> PInt 1,
      ''min_bookmarked_for_artist'' \<mapsto> PInt 1,
      ''max_plays_for_new_artist'' \<mapsto> PInt 0]"

subsection \<open>The file system at \<^verbatim>\<open>CONFIG_PATH\<close>\<close>

text \<open>
  The module reads and writes one path, the global \<^verbatim>\<open>CONFIG_PATH\<close>, so the state is
  what the file system holds there: the parent directory is missing, the directory is
  there without the file, or the file is there with its content.

  The JSON codec belongs to Python's standard library, not to this module. A file
  content is therefore described by what \<^verbatim>\<open>json.load\<close> makes of it:
  \<^item> \<open>Undecodable b\<close> is a file whose bytes \<open>b\<close> are not text in the encoding that
    \<^verbatim>\<open>open\<close> uses (the bytes \<^verbatim>\<open>ff fe 7b\<close> under UTF-8, say): reading it raises
    \<^verbatim>\<open>UnicodeDecodeError\<close>;
  \<^item> \<open>Malformed t\<close> is a text \<open>t\<close> on which the parser raises \<^verbatim>\<open>JSONDecodeError\<close>;
  \<^item> \<open>Json v\<close> is a text that parses to the value \<open>v\<close>. The value need not be a
    dictionary: \<^verbatim>\<open>[]\<close> and \<^verbatim>\<open>42\<close> are JSON texts.

  The model never looks into \<open>b\<close> or \<open>t\<close>. \<^verbatim>\<open>json.dump\<close> of a configuration
  writes a text that parses back to that configuration.

  Failures of the operating system other than a missing file or directory (permissions,
  a full disk, a directory at the file's path) are outside the model.
\<close>

datatype content = Undecodable string | Malformed string | Json pyval

datatype fs = NoDir | NoFile | File content

datatype error = FileNotFoundError | UnicodeDecodeError | JSONDecodeError | TypeError

text \<open>
  An operation takes the state of the file system and returns its outcome, a raised
  exception (\<open>Inl\<close>) or a value (\<open>Inr\<close>), together with the state it leaves: an
  exception does not undo what was written before it.
\<close>

type_synonym 'a io = "fs \<Rightarrow> (error + 'a) \<times> fs"

text \<open>\<^verbatim>\<open>os.makedirs(CONFIG_PATH.parent, exist_ok=True)\<close>\<close>

fun makedirs :: "fs \<Rightarrow> fs" where
  "makedirs NoDir = NoFile"
| "makedirs NoFile = NoFile"
| "makedirs (File c) = File c"

fun dir_exists :: "fs \<Rightarrow> bool" where
  "dir_exists NoDir = False"
| "dir_exists NoFile = True"
| "dir_exists (File c) = True"

text \<open>\<^verbatim>\<open>open(CONFIG_PATH, 'r')\<close> and reading the text\<close>

fun open_read :: "fs \<Rightarrow> error + content" where
  "open_read NoDir = Inl FileNotFoundError"
| "open_read NoFile = Inl FileNotFoundError"
| "open_read (File c) = Inr c"

text \<open>\<^verbatim>\<open>open(CONFIG_PATH, 'w')\<close> and writing the text: the file is replaced in full\<close>

fun open_write :: "content \<Rightarrow> unit io" where
  "open_write c NoDir = (Inl FileNotFoundError, NoDir)"
| "open_write c NoFile = (Inr (), File c)"
| "open_write c (File old) = (Inr (), File c)"

text \<open>\<^verbatim>\<open>json.load(f)\<close>: reads the whole file as text, then parses the text\<close>

fun json_load :: "content \<Rightarrow> error + pyval" where
  "json_load (Undecodable b) = Inl UnicodeDecodeError"
| "json_load (Malformed t) = Inl JSONDecodeError"
| "json_load (Json v) = Inr v"

definition json_dump :: "config \<Rightarrow> content" where
  "json_dump config_dict = Json (PDict config_dict)"

subsection \<open>The operations\<close>

text \<open>
  \<^verbatim>\<open>{**DEFAULT_CONFIG, **loaded_config}\<close>: the right operand must be a mapping, any
  other value raises \<^verbatim>\<open>TypeError\<close>; on a key of both, the right operand wins.
\<close>

fun dict_merge :: "config \<Rightarrow> pyval \<Rightarrow> error + config" where
  "dict_merge d (PDict m) = Inr (d ++ m)"
| "dict_merge d PNone = Inl TypeError"
| "dict_merge d (PBool b) = Inl TypeError"
| "dict_merge d (PInt i) = Inl TypeError"
| "dict_merge d (PStr s) = Inl TypeError"
| "dict_merge d (PList l) = Inl TypeError"

text \<open>
  \<^verbatim>\<open>
  def save_config(config_dict):
      os.makedirs(CONFIG_PATH.parent, exist_ok=True)
      with open(CONFIG_PATH, 'w') as f:
          json.dump(config_dict, f, indent=4)
  \<close>
\<close>

definition save_config :: "config \<Rightarrow> unit io" where
  "save_config config_dict fs = open_write (json_dump config_dict) (makedirs fs)"

text \<open>
  \<^verbatim>\<open>
  def load_config():
      try:
          with open(CONFIG_PATH, 'r') as f:
              loaded_config = json.load(f)
              return {**DEFAULT_CONFIG, **loaded_config}
      except FileNotFoundError:
          os.makedirs(CONFIG_PATH.parent, exist_ok=True)
          save_config(DEFAULT_CONFIG)
          return DEFAULT_CONFIG.copy()
      except json.JSONDecodeError:
          save_config(DEFAULT_CONFIG)
          return DEFAULT_CONFIG.copy()
  \<close>
  The body of the \<^verbatim>\<open>try\<close> only reads; \<open>load_except\<close> is the two handlers, and an
  exception that neither handler names (\<^verbatim>\<open>UnicodeDecodeError\<close> from reading,
  \<^verbatim>\<open>TypeError\<close> from the merge) goes on to the caller. An exception raised inside a
  handler goes on to the caller too.
\<close>

definition load_try :: "fs \<Rightarrow> error + config" where
  "load_try fs =
     (case open_read fs of
        Inl e \<Rightarrow> Inl e
      | Inr f \<Rightarrow>
          (case json_load f of
             Inl e \<Rightarrow> Inl e
           | Inr loaded_config \<Rightarrow> dict_merge DEFAULT_CONFIG loaded_config))"

fun load_except :: "error \<Rightarrow> config io" where
  "load_except FileNotFoundError fs =
     (case save_config DEFAULT_CONFIG (makedirs fs) of
        (Inl e, fs') \<Rightarrow> (Inl e, fs')
      | (Inr u, fs') \<Rightarrow> (Inr DEFAULT_CONFIG, fs'))"
| "load_except JSONDecodeError fs =
     (case save_config DEFAULT_CONFIG fs of
        (Inl e, fs') \<Rightarrow> (Inl e, fs')
      | (Inr u, fs') \<Rightarrow> (Inr DEFAULT_CONFIG, fs'))"
| "load_except UnicodeDecodeError fs = (Inl UnicodeDecodeError, fs)"
| "load_except TypeError fs = (Inl TypeError, fs)"

definition load_config :: "config io" where
  "load_config fs =
     (case load_try fs of
        Inr config \<Rightarrow> (Inr config, fs)
      | Inl e \<Rightarrow> load_except e fs)"

text \<open>
  \<^verbatim>\<open>
  def get_config_value(key, default=None):
      config = load_config()
      return config.get(key, default)
  \<close>
  The parameter \<^verbatim>\<open>default\<close> is \<open>dflt\<close> here; \<open>get_config_value_nodefault\<close> is the call
  without the second argument.
\<close>

definition get_config_value :: "string \<Rightarrow> pyval \<Rightarrow> pyval io" where
  "get_config_value key dflt fs =
     (case load_config fs of
        (Inl e, fs') \<Rightarrow> (Inl e, fs')
      | (Inr config, fs') \<Rightarrow>
          (Inr (case config key of Some v \<Rightarrow> v | None \<Rightarrow> dflt), fs'))"

definition get_config_value_nodefault :: "string \<Rightarrow> pyval io" where
  "get_config_value_nodefault key = get_config_value key PNone"

text \<open>
  \<^verbatim>\<open>
  def set_config_value(key, value):
      config = load_config()
      config[key] = value
      save_config(config)
  \<close>
  \<^verbatim>\<open>load_config\<close> returns a fresh dictionary on every path (a merge or a copy), so the
  assignment never changes \<^verbatim>\<open>DEFAULT_CONFIG\<close>.
\<close>

definition set_config_value :: "string \<Rightarrow> pyval \<Rightarrow> unit io" where
  "set_config_value key val fs =
     (case load_config fs of
        (Inl e, fs') \<Rightarrow> (Inl e, fs')
      | (Inr config, fs') \<Rightarrow> save_config (config(key \<mapsto> val)) fs')"

text \<open>
  \<^verbatim>\<open>
  def reset_to_defaults():
      save_config(DEFAULT_CONFIG)
      return DEFAULT_CONFIG.copy()
  \<close>
\<close>

definition reset_to_defaults :: "config io" where
  "reset_to_defaults fs =
     (case save_config DEFAULT_CONFIG fs of
        (Inl e, fs') \<Rightarrow> (Inl e, fs')
      | (Inr u, fs') \<Rightarrow> (Inr DEFAULT_CONFIG, fs'))"

subsection \<open>Outcome of each operation, by the state it starts from\<close>

lemma save_config_result: "save_config X fs = (Inr (), File (json_dump X))"
  by (cases fs) (simp_all add: save_config_def)

lemma load_config_absent:
  "open_read fs = Inl FileNotFoundError \<Longrightarrow>
   load_config fs = (Inr DEFAULT_CONFIG, File (json_dump DEFAULT_CONFIG))"
  by (simp add: load_config_def load_try_def save_config_result)

lemma load_config_unparsable:
  "open_read fs = Inr c \<Longrightarrow> json_load c = Inl JSONDecodeError \<Longrightarrow>
   load_config fs = (Inr DEFAULT_CONFIG, File (json_dump DEFAULT_CONFIG))"
  by (simp add: load_config_def load_try_def save_config_result)

lemma load_config_undecodable:
  "open_read fs = Inr c \<Longrightarrow> json_load c = Inl UnicodeDecodeError \<Longrightarrow>
   load_config fs = (Inl UnicodeDecodeError, fs)"
  by (simp add: load_config_def load_try_def)


lemma load_config_mapping:
  "open_read fs = Inr c \<Longrightarrow> json_load c = Inr (PDict D) \<Longrightarrow>
   load_config fs = (Inr (DEFAULT_CONFIG ++ D), fs)"
  by (simp add: load_config_def load_try_def)

lemma load_config_dumped:
  "load_config (File (json_dump X)) = (Inr (DEFAULT_CONFIG ++ X), File (json_dump X))"
  by (simp add: load_config_def load_try_def json_dump_def)

lemma dict_merge_cases:
  "(\<exists>D. v = PDict D \<and> dict_merge d v = Inr (d ++ D)) \<or> dict_merge d v = Inl TypeError"
  by (cases v) simp_all

text \<open>
  The four outcomes of \<open>load_config\<close>: the defaults are written and returned (no file,
  or a text that does not parse), the merge is returned and the file is left alone (the
  file holds a JSON object), \<^verbatim>\<open>TypeError\<close> goes to the caller and the file is left
  alone (the file holds JSON of another kind), or \<^verbatim>\<open>UnicodeDecodeError\<close> goes to the
  caller and the file is left alone (the file is not text).
\<close>

lemma load_config_cases:
  "load_config fs = (Inr DEFAULT_CONFIG, File (json_dump DEFAULT_CONFIG)) \<and>
     load_try fs \<noteq> Inl TypeError \<and> load_try fs \<noteq> Inl UnicodeDecodeError
   \<or> (\<exists>D. fs = File (Json (PDict D)) \<and> load_config fs = (Inr (DEFAULT_CONFIG ++ D), fs))
   \<or> load_config fs = (Inl TypeError, fs) \<and> load_try fs = Inl TypeError
   \<or> load_config fs = (Inl UnicodeDecodeError, fs) \<and> load_try fs = Inl UnicodeDecodeError"
proof (cases fs)
  case NoDir
  then show ?thesis by (simp add: load_config_absent load_try_def)
next
  case NoFile
  then show ?thesis by (simp add: load_config_absent load_try_def)
next
  case (File c)
  show ?thesis
  proof (cases c)
    case (Undecodable b)
    with File show ?thesis by (simp add: load_config_undecodable load_try_def)
  next
    case (Malformed t)
    with File show ?thesis by (simp add: load_config_unparsable load_try_def)
  next
    case (Json v)
    with File dict_merge_cases [of v DEFAULT_CONFIG] show ?thesis
      by (auto simp add: load_config_def load_try_def)
  qed
qed

text \<open>
  \<^verbatim>\<open>TypeError\<close> is raised exactly when the file is there and holds JSON that is not
  an object.
\<close>

lemma load_try_TypeError_iff:
  "(load_try fs = Inl TypeError) = (\<exists>v. fs = File (Json v) \<and> (\<forall>D. v \<noteq> PDict D))"
proof (cases fs)
  case NoDir
  then show ?thesis by (simp add: load_try_def)
next
  case NoFile
  then show ?thesis by (simp add: load_try_def)
next
  case (File c)
  show ?thesis
  proof (cases c)
    case (Undecodable b)
    with File show ?thesis by (simp add: load_try_def)
  next
    case (Malformed t)
    with File show ?thesis by (simp add: load_try_def)
  next
    case (Json v)
    with File show ?thesis by (cases v) (simp_all add: load_try_def)
  qed
qed

text \<open>\<^verbatim>\<open>UnicodeDecodeError\<close> is raised exactly when the file is there and is not text.\<close>

lemma load_try_UnicodeDecodeError_iff:
  "(load_try fs = Inl UnicodeDecodeError) = (\<exists>b. fs = File (Undecodable b))"
proof (cases fs)
  case NoDir
  then show ?thesis by (simp add: load_try_def)
next
  case NoFile
  then show ?thesis by (simp add: load_try_def)
next
  case (File c)
  show ?thesis
  proof (cases c)
    case (Undecodable b)
    with File show ?thesis by (simp add: load_try_def)
  next
    case (Malformed t)
    with File show ?thesis by (simp add: load_try_def)
  next
    case (Json v)
    with File show ?thesis by (cases v) (simp_all add: load_try_def)
  qed
qed

lemma dom_DEFAULT_CONFIG:
  "dom DEFAULT_CONFIG =
     {''default_preview_length'', ''default_shuffle'', ''default_scrobble'',
      ''min_liked_for_artist'', ''min_bookmarked_for_artist'', ''max_plays_for_new_artist''}"
  by (auto simp add: DEFAULT_CONFIG_def)

lemma card_dom_DEFAULT_CONFIG: "card (dom DEFAULT_CONFIG) = 6"
  by (simp add: dom_DEFAULT_CONFIG)

lemma merge_eq_iff: "(d ++ X = X) = (dom d \<subseteq> dom X)"
proof
  assume "d ++ X = X"
  then have "dom (d ++ X) = dom X" by simp
  then show "dom d \<subseteq> dom X" by auto
next
  assume sub: "dom d \<subseteq> dom X"
  show "d ++ X = X"
  proof
    fix k
    show "(d ++ X) k = X k"
      using sub by (cases "X k") (auto simp add: map_add_def dom_def)
  qed
qed

lemma merge_lookup:
  "(d ++ X) k = (case X k of Some v \<Rightarrow> Some v | None \<Rightarrow> d k)"
  by (simp add: map_add_def)

subsection \<open>Saving and loading\<close>

text \<open>
  C1, as the code has it. \<open>save_config X\<close> always succeeds and leaves a file that holds
  exactly \<open>X\<close>; the \<open>load_config\<close> that follows returns \<open>DEFAULT_CONFIG\<close> overlaid
  with \<open>X\<close>: every key of \<open>X\<close> with the value \<open>X\<close> gives it, and every default key
  that \<open>X\<close> lacks with its default value. The result is \<open>X\<close> itself exactly when \<open>X\<close>
  has all the default keys.
\<close>

theorem save_then_load_merges:
  "fst (save_config X fs) = Inr () \<and>
   load_config (snd (save_config X fs)) = (Inr (DEFAULT_CONFIG ++ X), File (json_dump X)) \<and>
   (\<forall>k v. X k = Some v \<longrightarrow> (DEFAULT_CONFIG ++ X) k = Some v) \<and>
   (\<forall>k. X k = None \<longrightarrow> (DEFAULT_CONFIG ++ X) k = DEFAULT_CONFIG k) \<and>
   ((DEFAULT_CONFIG ++ X = X) = (dom DEFAULT_CONFIG \<subseteq> dom X))"
  by (simp add: save_config_result load_config_dumped merge_lookup merge_eq_iff)

theorem save_then_load_merges_witness:
  "load_config (snd (save_config [''test_key'' \<mapsto> PStr ''test_value''] NoDir)) =
     (Inr (DEFAULT_CONFIG ++ [''test_key'' \<mapsto> PStr ''test_value'']),
      File (json_dump [''test_key'' \<mapsto> PStr ''test_value''])) \<and>
   (DEFAULT_CONFIG ++ [''test_key'' \<mapsto> PStr ''test_value'']) ''test_key'' =
     Some (PStr ''test_value'') \<and>
   (DEFAULT_CONFIG ++ [''test_key'' \<mapsto> PStr ''test_value'']) ''default_shuffle'' =
     Some (PBool True)"
  using save_then_load_merges [of "[''test_key'' \<mapsto> PStr ''test_value'']" NoDir]
  by (simp add: DEFAULT_CONFIG_def)

text \<open>
  C1, as the claim states it, fails: after saving the one-entry mapping
  \<^verbatim>\<open>{"test_key": "test_value"}\<close>, loading does not return that mapping, since the
  six default keys have been added.
\<close>

theorem save_then_load_not_identity:
  "fst (load_config (snd (save_config [''test_key'' \<mapsto> PStr ''test_value''] NoFile)))
     \<noteq> Inr [''test_key'' \<mapsto> PStr ''test_value'']"
proof
  assume "fst (load_config (snd (save_config [''test_key'' \<mapsto> PStr ''test_value''] NoFile)))
     = Inr [''test_key'' \<mapsto> PStr ''test_value'']"
  then have "DEFAULT_CONFIG ++ [''test_key'' \<mapsto> PStr ''test_value''] =
     [''test_key'' \<mapsto> PStr ''test_value'']"
    by (simp add: save_config_result load_config_dumped)
  then have "dom DEFAULT_CONFIG \<subseteq> dom [''test_key'' \<mapsto> PStr ''test_value'']"
    by (simp only: merge_eq_iff)
  then show False by (simp add: dom_DEFAULT_CONFIG)
qed




text \<open>
  C3. When there is no file at the path, whether or not the parent directory is there,
  \<open>load_config\<close> raises nothing, returns the defaults and leaves the directory in place
  with a file that holds the serialized defaults.
\<close>

theorem load_config_fresh:
  "open_read fs = Inl FileNotFoundError \<Longrightarrow>
   load_config fs = (Inr DEFAULT_CONFIG, File (json_dump DEFAULT_CONFIG)) \<and>
   dir_exists (makedirs fs) \<and>
   dir_exists (snd (load_config fs)) \<and>
   open_read (snd (load_config fs)) = Inr (json_dump DEFAULT_CONFIG)"
  by (cases fs) (simp_all add: load_config_absent)

theorem load_config_fresh_witness:
  "open_read NoDir = Inl FileNotFoundError \<and>
   load_config NoDir = (Inr DEFAULT_CONFIG, File (json_dump DEFAULT_CONFIG)) \<and>
   open_read NoFile = Inl FileNotFoundError \<and>
   load_config NoFile = (Inr DEFAULT_CONFIG, File (json_dump DEFAULT_CONFIG))"
  using load_config_fresh [of NoDir] load_config_fresh [of NoFile]
  by simp

text \<open>
  C4. When the file holds a JSON object \<open>D\<close>, \<open>load_config\<close> returns the defaults
  overlaid with \<open>D\<close> and leaves the file as it is: on every key of \<open>D\<close> the result has
  the value of \<open>D\<close>, on every other key it has what the defaults have there.
\<close>

theorem load_config_partial:
  "open_read fs = Inr c \<Longrightarrow> json_load c = Inr (PDict D) \<Longrightarrow>
   load_config fs = (Inr (DEFAULT_CONFIG ++ D), fs) \<and>
   (\<forall>k \<in> dom D. (DEFAULT_CONFIG ++ D) k = D k) \<and>
   (\<forall>k. k \<notin> dom D \<longrightarrow> (DEFAULT_CONFIG ++ D) k = DEFAULT_CONFIG k)"
  by (auto simp add: load_config_mapping merge_lookup split: option.splits)

theorem load_config_partial_witness:
  "load_config
     (File (Json (PDict [''default_preview_length'' \<mapsto> PInt 45, ''custom_setting'' \<mapsto> PStr ''test'']))) =
     (Inr (DEFAULT_CONFIG ++ [''default_preview_length'' \<mapsto> PInt 45, ''custom_setting'' \<mapsto> PStr ''test'']),
      File (Json (PDict [''default_preview_length'' \<mapsto> PInt 45, ''custom_setting'' \<mapsto> PStr ''test'']))) \<and>
   (DEFAULT_CONFIG ++ [''default_preview_length'' \<mapsto> PInt 45, ''custom_setting'' \<mapsto> PStr ''test''])
     ''default_preview_length'' = Some (PInt 45) \<and>
   (DEFAULT_CONFIG ++ [''default_preview_length'' \<mapsto> PInt 45, ''custom_setting'' \<mapsto> PStr ''test''])
     ''custom_setting'' = Some (PStr ''test'') \<and>
   (DEFAULT_CONFIG ++ [''default_preview_length'' \<mapsto> PInt 45, ''custom_setting'' \<mapsto> PStr ''test''])
     ''min_liked_for_artist'' = Some (PInt 1)"
  using load_config_partial
    [of "File (Json (PDict [''default_preview_length'' \<mapsto> PInt 45, ''custom_setting'' \<mapsto> PStr ''test'']))"
        "Json (PDict [''default_preview_length'' \<mapsto> PInt 45, ''custom_setting'' \<mapsto> PStr ''test''])"
        "[''default_preview_length'' \<mapsto> PInt 45, ''custom_setting'' \<mapsto> PStr ''test'']"]
  by (simp add: DEFAULT_CONFIG_def)

text \<open>
  C5. Whatever the file system holds, a mapping that \<open>load_config\<close> returns has every
  key of \<open>DEFAULT_CONFIG\<close>; and \<open>load_config\<close> does return a mapping when the file
  is missing, when it holds a text on which the parser raises \<^verbatim>\<open>JSONDecodeError\<close>,
  and when it holds a JSON object.
\<close>

theorem load_config_has_defaults:
  "(\<forall>config. fst (load_config fs) = Inr config \<longrightarrow> dom DEFAULT_CONFIG \<subseteq> dom config) \<and>
   (open_read fs = Inl FileNotFoundError \<or>
    (\<exists>c. open_read fs = Inr c \<and>
       (json_load c = Inl JSONDecodeError \<or> (\<exists>D. json_load c = Inr (PDict D)))) \<longrightarrow>
    (\<exists>config. fst (load_config fs) = Inr config \<and> dom DEFAULT_CONFIG \<subseteq> dom config))"
proof (intro conjI allI impI)
  fix config
  assume "fst (load_config fs) = Inr config"
  with load_config_cases [of fs]
  have "config = DEFAULT_CONFIG \<or> (\<exists>D. config = DEFAULT_CONFIG ++ D)"
    by auto
  then show "dom DEFAULT_CONFIG \<subseteq> dom config"
    by (elim disjE exE) simp_all
next
  assume "open_read fs = Inl FileNotFoundError \<or>
    (\<exists>c. open_read fs = Inr c \<and>
       (json_load c = Inl JSONDecodeError \<or> (\<exists>D. json_load c = Inr (PDict D))))"
  then consider
      (absent) "open_read fs = Inl FileNotFoundError"
    | (undecodable) c where "open_read fs = Inr c" "json_load c = Inl JSONDecodeError"
    | (mapping) c D where "open_read fs = Inr c" "json_load c = Inr (PDict D)"
    by blast
  then show "\<exists>config. fst (load_config fs) = Inr config \<and> dom DEFAULT_CONFIG \<subseteq> dom config"
  proof cases
    case absent
    then show ?thesis by (simp add: load_config_absent)
  next
    case undecodable
    then show ?thesis by (simp add: load_config_unparsable)
  next
    case mapping
    then show ?thesis by (simp add: load_config_mapping)
  qed
qed

theorem load_config_has_defaults_witness:
  "(\<exists>config. fst (load_config NoDir) = Inr config \<and> dom DEFAULT_CONFIG \<subseteq> dom config) \<and>
   (\<exists>config. fst (load_config (File (Malformed ''{invalid json''))) = Inr config \<and>
      dom DEFAULT_CONFIG \<subseteq> dom config) \<and>
   (\<exists>config. fst (load_config (File (Json (PDict [''custom_setting'' \<mapsto> PStr ''test''])))) =
      Inr config \<and> dom DEFAULT_CONFIG \<subseteq> dom config)"
  using load_config_has_defaults [of NoDir]
    load_config_has_defaults [of "File (Malformed ''{invalid json'')"]
    load_config_has_defaults [of "File (Json (PDict [''custom_setting'' \<mapsto> PStr ''test'']))"]
  by simp

subsection \<open>Setting, getting and resetting\<close>




text \<open>
  C7. Whatever the file system holds, \<open>reset_to_defaults\<close> succeeds, replaces the
  file by the serialized defaults and returns the defaults; the \<open>load_config\<close> that
  follows returns exactly the defaults, so a key that is not a default key is not in
  the result.
\<close>

theorem reset_then_load:
  "reset_to_defaults fs = (Inr DEFAULT_CONFIG, File (json_dump DEFAULT_CONFIG)) \<and>
   load_config (snd (reset_to_defaults fs)) =
     (Inr DEFAULT_CONFIG, File (json_dump DEFAULT_CONFIG)) \<and>
   (\<forall>config k. fst (load_config (snd (reset_to_defaults fs))) = Inr config \<longrightarrow>
      k \<notin> dom DEFAULT_CONFIG \<longrightarrow> k \<notin> dom config)"
  by (simp add: reset_to_defaults_def save_config_result load_config_dumped merge_eq_iff)

theorem reset_then_load_witness:
  "load_config (snd (reset_to_defaults
     (File (Json (PDict [''custom_setting'' \<mapsto> PStr ''should_be_removed'',
                         ''min_liked_for_artist'' \<mapsto> PInt 999]))))) =
     (Inr DEFAULT_CONFIG, File (json_dump DEFAULT_CONFIG)) \<and>
   ''custom_setting'' \<notin> dom DEFAULT_CONFIG \<and>
   DEFAULT_CONFIG ''min_liked_for_artist'' = Some (PInt 1)"
proof -
  have custom: "''custom_setting'' \<notin> dom DEFAULT_CONFIG"
    by (simp add: dom_DEFAULT_CONFIG)
  have liked: "DEFAULT_CONFIG ''min_liked_for_artist'' = Some (PInt 1)"
    by (simp add: DEFAULT_CONFIG_def)
  from custom liked reset_then_load
    [of "File (Json (PDict [''custom_setting'' \<mapsto> PStr ''should_be_removed'',
                            ''min_liked_for_artist'' \<mapsto> PInt 999]))"]
  show ?thesis by blast
qed

text \<open>
  C8. When the file holds a JSON object \<open>D\<close>, \<open>get_config_value k d\<close> returns the
  value at \<open>k\<close> of the defaults overlaid with \<open>D\<close> if \<open>k\<close> is a key there, and \<open>d\<close>
  if not; the file is left alone. When the file is missing or holds a text on which the
  parser raises \<^verbatim>\<open>JSONDecodeError\<close>, nothing is
  persisted, the union is the defaults alone (which the call also writes), and the same
  holds with it. Without its second argument the call is the one with \<^verbatim>\<open>None\<close>
  for \<open>d\<close>.
\<close>

theorem get_config_value_union:
  "(open_read fs = Inr c \<and> json_load c = Inr (PDict D) \<longrightarrow>
      get_config_value k d fs =
        (Inr (case (DEFAULT_CONFIG ++ D) k of Some v \<Rightarrow> v | None \<Rightarrow> d), fs)) \<and>
   (open_read fs = Inl FileNotFoundError \<or>
    open_read fs = Inr c \<and> json_load c = Inl JSONDecodeError \<longrightarrow>
      get_config_value k d fs =
        (Inr (case DEFAULT_CONFIG k of Some v \<Rightarrow> v | None \<Rightarrow> d),
         File (json_dump DEFAULT_CONFIG))) \<and>
   get_config_value_nodefault k fs = get_config_value k PNone fs"
  by (auto simp add: get_config_value_def get_config_value_nodefault_def
        load_config_mapping load_config_absent load_config_unparsable)

theorem get_config_value_union_witness:
  "fst (get_config_value ''min_liked_for_artist'' PNone NoFile) = Inr (PInt 1) \<and>
   fst (get_config_value ''non_existent_key'' (PStr ''default_value'') NoFile) =
     Inr (PStr ''default_value'') \<and>
   fst (get_config_value_nodefault ''non_existent_key'' NoFile) = Inr PNone \<and>
   fst (get_config_value ''custom_setting'' PNone
          (File (Json (PDict [''custom_setting'' \<mapsto> PStr ''test''])))) = Inr (PStr ''test'') \<and>
   fst (get_config_value ''default_shuffle'' PNone
          (File (Json (PDict [''custom_setting'' \<mapsto> PStr ''test''])))) = Inr (PBool True)"
  using get_config_value_union [of NoFile "Malformed []" Map.empty "''min_liked_for_artist''" PNone]
    get_config_value_union
      [of NoFile "Malformed []" Map.empty "''non_existent_key''" "PStr ''default_value''"]
    get_config_value_union [of NoFile "Malformed []" Map.empty "''non_existent_key''" PNone]
    get_config_value_union
      [of "File (Json (PDict [''custom_setting'' \<mapsto> PStr ''test'']))"
          "Json (PDict [''custom_setting'' \<mapsto> PStr ''test''])"
          "[''custom_setting'' \<mapsto> PStr ''test'']" "''custom_setting''" PNone]
    get_config_value_union
      [of "File (Json (PDict [''custom_setting'' \<mapsto> PStr ''test'']))"
          "Json (PDict [''custom_setting'' \<mapsto> PStr ''test''])"
          "[''custom_setting'' \<mapsto> PStr ''test'']" "''default_shuffle''" PNone]
  by (simp add: DEFAULT_CONFIG_def)

text \<open>
  C9. Whatever the file system holds, a second \<open>load_config\<close> right after the first has
  the outcome of the first and leaves the file system as the first left it. The outcome
  is a mapping unless the merge raises \<^verbatim>\<open>TypeError\<close> or the reading raises
  \<^verbatim>\<open>UnicodeDecodeError\<close>.
\<close>

theorem load_config_idempotent:
  "fst (load_config (snd (load_config fs))) = fst (load_config fs) \<and>
   snd (load_config (snd (load_config fs))) = snd (load_config fs) \<and>
   (load_try fs \<noteq> Inl TypeError \<and> load_try fs \<noteq> Inl UnicodeDecodeError \<longrightarrow>
      (\<exists>config. fst (load_config fs) = Inr config))"
  using load_config_cases [of fs]
  by (auto simp add: load_config_dumped merge_eq_iff)

theorem load_config_idempotent_witness:
  "load_try (File (Malformed ''{invalid json'')) \<noteq> Inl TypeError \<and>
   load_try (File (Malformed ''{invalid json'')) \<noteq> Inl UnicodeDecodeError \<and>
   load_config (snd (load_config (File (Malformed ''{invalid json'')))) =
     load_config (File (Malformed ''{invalid json'')) \<and>
   (\<exists>config. fst (load_config (File (Malformed ''{invalid json''))) = Inr config)"
proof -
  have h: "load_try (File (Malformed ''{invalid json'')) \<noteq> Inl TypeError \<and>
     load_try (File (Malformed ''{invalid json'')) \<noteq> Inl UnicodeDecodeError"
    by (simp add: load_try_def)
  from load_config_idempotent [of "File (Malformed ''{invalid json'')"] h show ?thesis
    by (simp add: prod_eq_iff)
qed

text \<open>
  C10. With no file at the path, \<open>set_config_value k v\<close> succeeds and writes the
  defaults with \<open>k\<close> set to \<open>v\<close>: all six default keys are in the file, \<open>k\<close> has the
  value \<open>v\<close>, every other key has its default, and the file is not the one-entry
  mapping of \<open>k\<close> to \<open>v\<close>.
\<close>

theorem set_config_value_fresh:
  "open_read fs = Inl FileNotFoundError \<Longrightarrow>
   set_config_value k v fs = (Inr (), File (json_dump (DEFAULT_CONFIG(k \<mapsto> v)))) \<and>
   json_load (json_dump (DEFAULT_CONFIG(k \<mapsto> v))) = Inr (PDict (DEFAULT_CONFIG(k \<mapsto> v))) \<and>
   card (dom DEFAULT_CONFIG) = 6 \<and>
   dom DEFAULT_CONFIG \<subseteq> dom (DEFAULT_CONFIG(k \<mapsto> v)) \<and>
   (DEFAULT_CONFIG(k \<mapsto> v)) k = Some v \<and>
   (\<forall>k'. k' \<noteq> k \<longrightarrow> (DEFAULT_CONFIG(k \<mapsto> v)) k' = DEFAULT_CONFIG k') \<and>
   DEFAULT_CONFIG(k \<mapsto> v) \<noteq> [k \<mapsto> v]"
proof -
  assume absent: "open_read fs = Inl FileNotFoundError"
  have "DEFAULT_CONFIG(k \<mapsto> v) \<noteq> [k \<mapsto> v]"
  proof
    assume "DEFAULT_CONFIG(k \<mapsto> v) = [k \<mapsto> v]"
    then have "dom (DEFAULT_CONFIG(k \<mapsto> v)) = dom [k \<mapsto> v]" by (rule arg_cong)
    then have "dom DEFAULT_CONFIG \<subseteq> {k}" by auto
    then have "card (dom DEFAULT_CONFIG) \<le> card {k}" by (intro card_mono) simp_all
    then show False by (simp add: card_dom_DEFAULT_CONFIG)
  qed
  with absent show ?thesis
    by (auto simp add: set_config_value_def load_config_absent save_config_result
          card_dom_DEFAULT_CONFIG json_dump_def)
qed

theorem set_config_value_fresh_witness:
  "open_read NoDir = Inl FileNotFoundError \<and>
   set_config_value ''setting_one'' (PStr ''value_one'') NoDir =
     (Inr (), File (json_dump (DEFAULT_CONFIG(''setting_one'' \<mapsto> PStr ''value_one'')))) \<and>
   (DEFAULT_CONFIG(''setting_one'' \<mapsto> PStr ''value_one'')) ''default_preview_length'' =
     Some (PInt 30) \<and>
   DEFAULT_CONFIG(''setting_one'' \<mapsto> PStr ''value_one'') \<noteq>
     [''setting_one'' \<mapsto> PStr ''value_one'']"
proof -
  have h: "open_read NoDir = Inl FileNotFoundError" by simp
  from set_config_value_fresh [OF h, of "''setting_one''" "PStr ''value_one''"] show ?thesis
    by (simp add: DEFAULT_CONFIG_def)
qed

end
